theory Spec2Isabelle
  imports Main
begin

section \<open>Values exchanged with the identity provider and the record store\<close>

text \<open>
  A TypeScript value of type \<open>string | null | undefined\<close>. The optional columns of
  \<^verbatim>\<open>lib/types\<close> (\<open>phone_number?: string\<close>) are \<open>undefined\<close> when the key is missing
  and \<open>null\<close> when the store returns an SQL NULL; the form field
  \<open>phoneNumber: z.string().optional()\<close> is a string or \<open>undefined\<close>. Equality of this
  datatype is JavaScript's strict equality \<open>===\<close> on such values.
\<close>

datatype js_string = Undefined | Null | Str string

text \<open>\<open>x || null\<close>: a falsy value (\<open>undefined\<close>, \<open>null\<close>, the empty string) becomes \<open>null\<close>.\<close>

fun or_null :: "js_string \<Rightarrow> js_string" where
  "or_null (Str s) = (if s = [] then Null else Str s)"
| "or_null Null = Null"
| "or_null Undefined = Null"

text \<open>\<open>x || ''\<close>: a falsy value becomes the empty string.\<close>

fun or_empty :: "js_string \<Rightarrow> js_string" where
  "or_empty (Str s) = (if s = [] then Str [] else Str s)"
| "or_empty Null = Str []"
| "or_empty Undefined = Str []"

text \<open>An error object, as returned in \<open>{ error }\<close> or thrown; only its message is read.\<close>

datatype js_error = Js_error (message: string)

text \<open>
  What awaiting a write to the store gives: \<open>{ error: null }\<close>, \<open>{ error }\<close> with an
  error object, or a rejected promise (an exception at the \<open>await\<close>).
\<close>

datatype store_result = Ok | Failed js_error | Thrown js_error

text \<open>What awaiting a select gives: \<open>{ data, error: null }\<close>, \<open>{ error }\<close>, or an exception.\<close>

datatype 'a select_result = Selected 'a | Select_failed js_error | Select_thrown js_error

text \<open>
  What awaiting \<open>supabase.auth.signInWithPassword\<close> gives: \<open>{ data: authData, error: null }\<close>
  where \<open>authData.user\<close> is a user (its \<open>id\<close>) or \<open>null\<close>; \<open>{ error }\<close>; or an exception.
\<close>

datatype auth_result = Auth_ok "string option" | Auth_failed js_error | Auth_thrown js_error

subsection \<open>Rows (\<^verbatim>\<open>lib/types\<close>) and request payloads\<close>

record Profile =
  profile_id :: string
  first_name :: string
  last_name :: string
  phone_number :: js_string
  created_at :: string
  updated_at :: string

text \<open>The object passed to \<open>from('profile_changes').insert\<close> by \<open>recordProfileChange\<close>.\<close>

record ProfileChangeInsert =
  user_id :: string
  field_changed :: string
  old_value :: js_string
  new_value :: js_string
  changed_by :: string

text \<open>A stored row of \<open>profile_changes\<close>: the inserted columns and the store's own.\<close>

record ProfileChange = ProfileChangeInsert +
  change_id :: string
  change_timestamp :: string

text \<open>The object passed to \<open>from('profiles').update\<close> by \<open>onSubmit\<close>.\<close>

record ProfileUpdate =
  upd_first_name :: string
  upd_last_name :: string
  upd_phone_number :: js_string
  upd_updated_at :: string

text \<open>The object passed to \<open>from('login_history').insert\<close> by \<open>recordLoginAttempt\<close>.\<close>

record LoginInsert =
  login_user_id :: string
  success :: bool
  device_info :: string
  failure_reason :: js_string

record ProfileForm =
  firstName :: string
  lastName :: string
  phoneNumber :: js_string

record LoginForm =
  email :: string
  password :: string

section \<open>Calls issued, in the order they are issued\<close>

datatype event =
    Sign_in string string
  | Insert_login_history LoginInsert
  | Insert_profile_change ProfileChangeInsert
  | Update_profile string ProfileUpdate
  | Select_profile string
  | Select_profile_changes string
  | Toast_success string
  | Toast_error string
  | Console_error string js_error
  | Navigate string

text \<open>
  An \<open>async\<close> function over a component state \<open>'s\<close>: it ends by returning (\<open>Inr\<close>) or by
  throwing (\<open>Inl\<close>), leaves a state, and has issued a sequence of calls.
\<close>

type_synonym ('s, 'a) async = "'s \<Rightarrow> (js_error + 'a) \<times> 's \<times> event list"

definition finish :: "('s, unit) async" where
  "finish s = (Inr (), s, [])"

definition raise :: "js_error \<Rightarrow> ('s, 'a) async" where
  "raise e s = (Inl e, s, [])"

definition issue :: "event \<Rightarrow> ('s, unit) async" where
  "issue ev s = (Inr (), s, [ev])"

text \<open>\<open>await m; f\<close>: an exception of \<open>m\<close> skips \<open>f\<close>; state and calls of \<open>m\<close> stay.\<close>

definition and_then :: "('s, 'a) async \<Rightarrow> ('a \<Rightarrow> ('s, 'b) async) \<Rightarrow> ('s, 'b) async" where
  "and_then m f s =
     (case m s of
        (Inl e, s1, tr1) \<Rightarrow> (Inl e, s1, tr1)
      | (Inr a, s1, tr1) \<Rightarrow> (case f a s1 of (r, s2, tr2) \<Rightarrow> (r, s2, tr1 @ tr2)))"

definition only_if :: "bool \<Rightarrow> ('s, unit) async \<Rightarrow> ('s, unit) async" where
  "only_if c m = (if c then m else finish)"

section \<open>\<^verbatim>\<open>pages/Profile.tsx\<close>\<close>

text \<open>
  The component's state: \<open>user\<close> of \<open>useAuth()\<close> (its \<open>id\<close>, or \<open>None\<close> for \<open>null\<close>), the
  \<open>profile\<close> and \<open>changes\<close> of \<open>useState\<close>, and the values held by the form.
\<close>

record profile_page =
  user :: "string option"
  profile :: "Profile option"
  changes :: "ProfileChange list"
  form :: ProfileForm

text \<open>
  The store and the clock, as this page sees them. A response is a function of the
  request; within one \<open>onSubmit\<close> no request is issued twice (the three inserts differ
  in \<open>field_changed\<close>).
\<close>

record profile_env =
  insert_profile_change :: "ProfileChangeInsert \<Rightarrow> store_result"
  update_profile :: "string \<Rightarrow> ProfileUpdate \<Rightarrow> store_result"
  select_profile :: "string \<Rightarrow> Profile select_result"
  select_profile_changes :: "string \<Rightarrow> ProfileChange list select_result"
  now_iso :: string

text \<open>\<open>loadProfile\<close>, lines 35-55.\<close>

definition loadProfile :: "profile_env \<Rightarrow> (profile_page, unit) async" where
  "loadProfile env s =
     (case user s of
        None \<Rightarrow> (Inr (), s, [])
      | Some uid \<Rightarrow>
          (case select_profile env uid of
             Select_thrown e \<Rightarrow> (Inl e, s, [Select_profile uid])
           | Select_failed e \<Rightarrow>
               (Inr (), s, [Select_profile uid, Toast_error ''Failed to load profile''])
           | Selected data \<Rightarrow>
               (Inr (),
                s\<lparr>profile := Some data,
                  form := \<lparr>firstName = first_name data,
                            lastName = last_name data,
                            phoneNumber = or_empty (phone_number data)\<rparr>\<rparr>,
                [Select_profile uid])))"

text \<open>\<open>loadProfileChanges\<close>, lines 57-72.\<close>

definition loadProfileChanges :: "profile_env \<Rightarrow> (profile_page, unit) async" where
  "loadProfileChanges env s =
     (case user s of
        None \<Rightarrow> (Inr (), s, [])
      | Some uid \<Rightarrow>
          (case select_profile_changes env uid of
             Select_thrown e \<Rightarrow> (Inl e, s, [Select_profile_changes uid])
           | Select_failed e \<Rightarrow>
               (Inr (), s,
                [Select_profile_changes uid, Toast_error ''Failed to load profile changes''])
           | Selected data \<Rightarrow> (Inr (), s\<lparr>changes := data\<rparr>, [Select_profile_changes uid])))"

text \<open>
  \<open>recordProfileChange\<close>, lines 91-107. There is no \<open>try\<close> here: a rejected insert is
  an exception of \<open>recordProfileChange\<close>; a returned \<open>error\<close> is logged and dropped.
\<close>

definition recordProfileChange ::
    "profile_env \<Rightarrow> string \<Rightarrow> js_string \<Rightarrow> js_string \<Rightarrow> (profile_page, unit) async" where
  "recordProfileChange env fieldName oldValue newValue s =
     (case user s of
        None \<Rightarrow> (Inr (), s, [])
      | Some uid \<Rightarrow>
          (let row = \<lparr>user_id = uid, field_changed = fieldName, old_value = oldValue,
                      new_value = newValue, changed_by = uid\<rparr>
           in case insert_profile_change env row of
                Thrown e \<Rightarrow> (Inl e, s, [Insert_profile_change row])
              | Failed e \<Rightarrow>
                  (Inr (), s,
                   [Insert_profile_change row,
                    Console_error ''Failed to record profile change:'' e])
              | Ok \<Rightarrow> (Inr (), s, [Insert_profile_change row])))"

text \<open>Lines 114-122 of \<open>onSubmit\<close>: "Record changes before updating".\<close>

definition record_changes :: "profile_env \<Rightarrow> ProfileForm \<Rightarrow> Profile \<Rightarrow> (profile_page, unit) async" where
  "record_changes env data p =
     and_then
       (only_if (firstName data \<noteq> first_name p)
          (recordProfileChange env ''first_name'' (Str (first_name p)) (Str (firstName data))))
       (\<lambda>_. and_then
          (only_if (lastName data \<noteq> last_name p)
             (recordProfileChange env ''last_name'' (Str (last_name p)) (Str (lastName data))))
          (\<lambda>_. only_if (phoneNumber data \<noteq> phone_number p)
             (recordProfileChange env ''phone_number''
                (or_null (phone_number p)) (or_null (phoneNumber data)))))"

text \<open>The object of lines 126-131.\<close>

definition update_payload :: "profile_env \<Rightarrow> ProfileForm \<Rightarrow> ProfileUpdate" where
  "update_payload env data =
     \<lparr>upd_first_name = firstName data, upd_last_name = lastName data,
      upd_phone_number = phoneNumber data, upd_updated_at = now_iso env\<rparr>"

text \<open>Lines 124-134: the update, and \<open>if (error) throw error\<close>.\<close>

definition update_or_throw :: "profile_env \<Rightarrow> string \<Rightarrow> ProfileForm \<Rightarrow> (profile_page, unit) async" where
  "update_or_throw env uid data s =
     (case update_profile env uid (update_payload env data) of
        Thrown e \<Rightarrow> (Inl e, s, [Update_profile uid (update_payload env data)])
      | Failed e \<Rightarrow> (Inl e, s, [Update_profile uid (update_payload env data)])
      | Ok \<Rightarrow> (Inr (), s, [Update_profile uid (update_payload env data)]))"

text \<open>Lines 124-138: the update, the success toast and the two reloads.\<close>

definition commit :: "profile_env \<Rightarrow> string \<Rightarrow> ProfileForm \<Rightarrow> (profile_page, unit) async" where
  "commit env uid data =
     and_then (update_or_throw env uid data)
       (\<lambda>_. and_then (issue (Toast_success ''Profile updated successfully''))
          (\<lambda>_. and_then (loadProfile env) (\<lambda>_. loadProfileChanges env)))"

text \<open>The \<open>try\<close> block of \<open>onSubmit\<close>, lines 112-138.\<close>

definition onSubmit_try ::
    "profile_env \<Rightarrow> string \<Rightarrow> Profile \<Rightarrow> ProfileForm \<Rightarrow> (profile_page, unit) async" where
  "onSubmit_try env uid p data = and_then (record_changes env data p) (\<lambda>_. commit env uid data)"

text \<open>
  \<open>onSubmit\<close>, lines 109-142: the guard, the \<open>try\<close> block, and the \<open>catch\<close> that turns
  every exception into an error toast. It returns the state left and the calls issued.
\<close>

definition onSubmit :: "profile_env \<Rightarrow> ProfileForm \<Rightarrow> profile_page \<Rightarrow> profile_page \<times> event list" where
  "onSubmit env data s =
     (case user s of
        None \<Rightarrow> (s, [])
      | Some uid \<Rightarrow>
          (case profile s of
             None \<Rightarrow> (s, [])
           | Some p \<Rightarrow>
               (case onSubmit_try env uid p data s of
                  (Inl e, s', tr) \<Rightarrow> (s', tr @ [Toast_error ''Failed to update profile''])
                | (Inr _, s', tr) \<Rightarrow> (s', tr))))"

section \<open>\<^verbatim>\<open>pages/Login.tsx\<close>\<close>

text \<open>The identity provider, the store and \<open>navigator\<close>, as this page sees them.\<close>

record login_env =
  signInWithPassword :: "string \<Rightarrow> string \<Rightarrow> auth_result"
  insert_login_history :: "LoginInsert \<Rightarrow> store_result"
  platform :: string
  userAgent :: string

text \<open>
  \<open>recordLoginAttempt\<close>, lines 22-38. The insert is inside \<open>try\<close>: an exception is
  logged and dropped; the awaited result is not read, so a returned \<open>error\<close> is
  dropped without a log. \<open>failureReason\<close> is \<open>undefined\<close> when the argument is omitted.
\<close>

definition recordLoginAttempt ::
    "login_env \<Rightarrow> string \<Rightarrow> bool \<Rightarrow> js_string \<Rightarrow> (unit, unit) async" where
  "recordLoginAttempt env userId succ failureReason s =
     (let deviceInfo = platform env @ '' - '' @ userAgent env;
          row = \<lparr>login_user_id = userId, success = succ, device_info = deviceInfo,
                 failure_reason = failureReason\<rparr>
      in case insert_login_history env row of
           Thrown e \<Rightarrow>
             (Inr (), s,
              [Insert_login_history row, Console_error ''Failed to record login attempt:'' e])
         | Failed e \<Rightarrow> (Inr (), s, [Insert_login_history row])
         | Ok \<Rightarrow> (Inr (), s, [Insert_login_history row]))"

text \<open>The \<open>try\<close> block of \<open>onSubmit\<close>, lines 41-60.\<close>

definition login_try :: "login_env \<Rightarrow> LoginForm \<Rightarrow> (unit, unit) async" where
  "login_try env data s =
     (case signInWithPassword env (email data) (password data) of
        Auth_thrown e \<Rightarrow> (Inl e, s, [Sign_in (email data) (password data)])
      | Auth_failed err \<Rightarrow>
          and_then (issue (Sign_in (email data) (password data)))
            (\<lambda>_. and_then (recordLoginAttempt env (email data) False (Str (message err)))
               (\<lambda>_. raise err)) s
      | Auth_ok authUser \<Rightarrow>
          and_then (issue (Sign_in (email data) (password data)))
            (\<lambda>_. and_then
               (case authUser of
                  Some uid \<Rightarrow> recordLoginAttempt env uid True Undefined
                | None \<Rightarrow> finish)
               (\<lambda>_. issue (Navigate ''/''))) s)"

text \<open>\<open>onSubmit\<close> of the login page, lines 40-64; it returns the calls issued.\<close>

definition login_onSubmit :: "login_env \<Rightarrow> LoginForm \<Rightarrow> event list" where
  "login_onSubmit env data =
     (case login_try env data () of
        (Inl e, _, tr) \<Rightarrow> tr @ [Toast_error ''Failed to sign in. Please check your credentials.'']
      | (Inr _, _, tr) \<Rightarrow> tr)"

section \<open>Reading a sequence of calls\<close>

fun change_inserts :: "event list \<Rightarrow> ProfileChangeInsert list" where
  "change_inserts [] = []"
| "change_inserts (Insert_profile_change r # es) = r # change_inserts es"
| "change_inserts (_ # es) = change_inserts es"

fun profile_updates :: "event list \<Rightarrow> (string \<times> ProfileUpdate) list" where
  "profile_updates [] = []"
| "profile_updates (Update_profile uid u # es) = (uid, u) # profile_updates es"
| "profile_updates (_ # es) = profile_updates es"

fun login_inserts :: "event list \<Rightarrow> LoginInsert list" where
  "login_inserts [] = []"
| "login_inserts (Insert_login_history r # es) = r # login_inserts es"
| "login_inserts (_ # es) = login_inserts es"

fun is_change_insert :: "event \<Rightarrow> bool" where
  "is_change_insert (Insert_profile_change _) = True"
| "is_change_insert _ = False"

fun is_profile_update :: "event \<Rightarrow> bool" where
  "is_profile_update (Update_profile _ _) = True"
| "is_profile_update _ = False"

fun is_login_insert :: "event \<Rightarrow> bool" where
  "is_login_insert (Insert_login_history _) = True"
| "is_login_insert _ = False"

fun is_reload :: "event \<Rightarrow> bool" where
  "is_reload (Select_profile _) = True"
| "is_reload (Select_profile_changes _) = True"
| "is_reload _ = False"

fun is_toast_success :: "event \<Rightarrow> bool" where
  "is_toast_success (Toast_success _) = True"
| "is_toast_success _ = False"

fun is_navigate :: "event \<Rightarrow> bool" where
  "is_navigate (Navigate _) = True"
| "is_navigate _ = False"

text \<open>The three components of what an \<open>async\<close> function leaves behind.\<close>

definition outcome :: "(js_error + 'a) \<times> 's \<times> event list \<Rightarrow> js_error + 'a" where
  "outcome r = fst r"

definition state_after :: "(js_error + 'a) \<times> 's \<times> event list \<Rightarrow> 's" where
  "state_after r = fst (snd r)"

definition calls :: "(js_error + 'a) \<times> 's \<times> event list \<Rightarrow> event list" where
  "calls r = snd (snd r)"

section \<open>The specification's side\<close>

text \<open>
  The number K of mutable fields in which a submission differs from the snapshot, and
  the rows the diff of section 4.2 asks for, in the fixed field order. In
  \<open>expected_change_rows\<close> the phone number's two values are normalised with
  \<open>or_null\<close>; in \<open>verbatim_change_rows\<close> every row carries the snapshot's and the
  submitted value as they are, which is how the specification words it.
\<close>

definition changed_fields :: "Profile \<Rightarrow> ProfileForm \<Rightarrow> nat" where
  "changed_fields p data =
     (if firstName data \<noteq> first_name p then 1 else 0) +
     (if lastName data \<noteq> last_name p then 1 else 0) +
     (if phoneNumber data \<noteq> phone_number p then 1 else 0)"

definition expected_change_rows :: "string \<Rightarrow> Profile \<Rightarrow> ProfileForm \<Rightarrow> ProfileChangeInsert list" where
  "expected_change_rows uid p data =
     (if firstName data \<noteq> first_name p
      then [\<lparr>user_id = uid, field_changed = ''first_name'', old_value = Str (first_name p),
             new_value = Str (firstName data), changed_by = uid\<rparr>] else []) @
     (if lastName data \<noteq> last_name p
      then [\<lparr>user_id = uid, field_changed = ''last_name'', old_value = Str (last_name p),
             new_value = Str (lastName data), changed_by = uid\<rparr>] else []) @
     (if phoneNumber data \<noteq> phone_number p
      then [\<lparr>user_id = uid, field_changed = ''phone_number'',
             old_value = or_null (phone_number p),
             new_value = or_null (phoneNumber data), changed_by = uid\<rparr>] else [])"

definition verbatim_change_rows :: "string \<Rightarrow> Profile \<Rightarrow> ProfileForm \<Rightarrow> ProfileChangeInsert list" where
  "verbatim_change_rows uid p data =
     (if firstName data \<noteq> first_name p
      then [\<lparr>user_id = uid, field_changed = ''first_name'', old_value = Str (first_name p),
             new_value = Str (firstName data), changed_by = uid\<rparr>] else []) @
     (if lastName data \<noteq> last_name p
      then [\<lparr>user_id = uid, field_changed = ''last_name'', old_value = Str (last_name p),
             new_value = Str (lastName data), changed_by = uid\<rparr>] else []) @
     (if phoneNumber data \<noteq> phone_number p
      then [\<lparr>user_id = uid, field_changed = ''phone_number'', old_value = phone_number p,
             new_value = phoneNumber data, changed_by = uid\<rparr>] else [])"

text \<open>A phone number that is the empty string, \<open>null\<close> or \<open>undefined\<close>.\<close>

definition empty_or_absent :: "js_string \<Rightarrow> bool" where
  "empty_or_absent v = (or_null v = Null)"

text \<open>
  The diff of section 4.2, as the specification words it: exact equality, with the empty
  string and an absent value treated as equal for the phone number.
\<close>

definition no_field_differs :: "Profile \<Rightarrow> ProfileForm \<Rightarrow> bool" where
  "no_field_differs p data =
     (firstName data = first_name p \<and> lastName data = last_name p \<and>
      (phoneNumber data = phone_number p \<or>
       (empty_or_absent (phoneNumber data) \<and> empty_or_absent (phone_number p))))"

section \<open>Concrete inputs\<close>

definition ada :: Profile where
  "ada = \<lparr>profile_id = ''U1'', first_name = ''Ada'', last_name = ''King'',
          phone_number = Str ''555-0100'', created_at = ''2025-01-31T20:52:21Z'',
          updated_at = ''2025-01-31T20:52:21Z''\<rparr>"

definition ada_page :: profile_page where
  "ada_page = \<lparr>user = Some ''U1'', profile = Some ada, changes = [],
     form = \<lparr>firstName = ''Ada'', lastName = ''King'', phoneNumber = Str ''555-0100''\<rparr>\<rparr>"

text \<open>A store that accepts every write and answers every select.\<close>

definition accepting_store :: profile_env where
  "accepting_store =
     \<lparr>insert_profile_change = (\<lambda>row. Ok), update_profile = (\<lambda>uid upd. Ok),
      select_profile = (\<lambda>uid. Selected ada),
      select_profile_changes = (\<lambda>uid. Selected []),
      now_iso = ''2025-02-01T09:00:00.000Z''\<rparr>"

text \<open>A store that refuses the update of the Profile row with a returned error.\<close>

definition rejecting_update_store :: profile_env where
  "rejecting_update_store =
     accepting_store\<lparr>update_profile := (\<lambda>uid upd. Failed (Js_error ''permission denied''))\<rparr>"


text \<open>A user whose Profile row has no phone number, on a page that has not loaded yet.\<close>

definition grace :: Profile where
  "grace = \<lparr>profile_id = ''U2'', first_name = ''Grace'', last_name = ''Hopper'',
            phone_number = Null, created_at = ''2025-01-31T21:09:07Z'',
            updated_at = ''2025-01-31T21:09:07Z''\<rparr>"

definition grace_store :: profile_env where
  "grace_store = accepting_store\<lparr>select_profile := (\<lambda>uid. Selected grace)\<rparr>"

definition blank_page :: profile_page where
  "blank_page = \<lparr>user = Some ''U2'', profile = None, changes = [],
     form = \<lparr>firstName = '''', lastName = '''', phoneNumber = Undefined\<rparr>\<rparr>"

text \<open>A page whose snapshot holds the empty string as phone number.\<close>

definition emptied_page :: profile_page where
  "emptied_page = \<lparr>user = Some ''U2'', profile = Some (grace\<lparr>phone_number := Str ''''\<rparr>),
     changes = [],
     form = \<lparr>firstName = ''Grace'', lastName = ''Hopper'', phoneNumber = Str ''''\<rparr>\<rparr>"

text \<open>Identity providers and a store for the login page.\<close>

definition rejecting_provider :: login_env where
  "rejecting_provider =
     \<lparr>signInWithPassword = (\<lambda>e p. Auth_failed (Js_error ''Invalid login credentials'')),
      insert_login_history = (\<lambda>row. Ok),
      platform = ''Linux x86_64'', userAgent = ''Mozilla/5.0''\<rparr>"

definition accepting_provider :: login_env where
  "accepting_provider =
     \<lparr>signInWithPassword = (\<lambda>e p. Auth_ok (Some ''U1'')),
      insert_login_history = (\<lambda>row. Ok),
      platform = ''Linux x86_64'', userAgent = ''Mozilla/5.0''\<rparr>"

section \<open>Sequences of calls, and the two phases of the profile cycle\<close>

lemmas triple_defs = outcome_def state_after_def calls_def

lemmas record_changes_defs =
  record_changes_def and_then_def only_if_def finish_def recordProfileChange_def Let_def

lemma change_inserts_append [simp]:
  "change_inserts (xs @ ys) = change_inserts xs @ change_inserts ys"
  by (induction xs rule: change_inserts.induct) simp_all

lemma profile_updates_append [simp]:
  "profile_updates (xs @ ys) = profile_updates xs @ profile_updates ys"
  by (induction xs rule: profile_updates.induct) simp_all

lemma login_inserts_append [simp]:
  "login_inserts (xs @ ys) = login_inserts xs @ login_inserts ys"
  by (induction xs rule: login_inserts.induct) simp_all

lemma change_inserts_none: "\<forall>ev\<in>set tr. \<not> is_change_insert ev \<Longrightarrow> change_inserts tr = []"
  by (induction tr rule: change_inserts.induct) simp_all

lemma profile_updates_none: "\<forall>ev\<in>set tr. \<not> is_profile_update ev \<Longrightarrow> profile_updates tr = []"
  by (induction tr rule: profile_updates.induct) simp_all

lemma later_in_append:
  assumes "\<forall>ev\<in>set xs. \<not> Q ev" and "\<forall>ev\<in>set ys. \<not> P ev"
    and "i < length (xs @ ys)" and "j < length (xs @ ys)"
    and "Q ((xs @ ys) ! i)" and "P ((xs @ ys) ! j)"
  shows "j < i"
proof -
  have "\<not> i < length xs"
    using assms(1,5) by (auto simp: nth_append)
  moreover have "j < length xs"
  proof (rule ccontr)
    assume "\<not> j < length xs"
    with assms(4) have "(xs @ ys) ! j \<in> set ys"
      by (simp add: nth_append)
    with assms(2,6) show False by blast
  qed
  ultimately show ?thesis by simp
qed

lemma record_changes_state: "state_after (record_changes env data p s) = s"
  by (simp add: triple_defs record_changes_defs
      split: option.splits store_result.splits prod.splits sum.splits)

lemma record_changes_inserts_subset:
  "user s = Some uid \<Longrightarrow>
   set (change_inserts (calls (record_changes env data p s))) \<subseteq> set (expected_change_rows uid p data)"
  by (simp add: triple_defs record_changes_defs expected_change_rows_def
      split: store_result.splits prod.splits sum.splits)

lemma record_changes_no_throw:
  "user s = Some uid \<Longrightarrow> \<forall>row e. insert_profile_change env row \<noteq> Thrown e \<Longrightarrow>
   outcome (record_changes env data p s) = Inr () \<and>
   change_inserts (calls (record_changes env data p s)) = expected_change_rows uid p data"
  by (simp add: triple_defs record_changes_defs expected_change_rows_def
      split: store_result.splits prod.splits sum.splits)

lemma record_changes_calls_kind:
  "\<forall>ev\<in>set (calls (record_changes env data p s)).
     \<not> is_profile_update ev \<and> \<not> is_toast_success ev \<and> \<not> is_reload ev"
  by (simp add: triple_defs record_changes_defs
      split: option.splits store_result.splits prod.splits sum.splits)

lemma record_changes_unchanged:
  "firstName data = first_name p \<Longrightarrow> lastName data = last_name p \<Longrightarrow>
   phoneNumber data = phone_number p \<Longrightarrow> record_changes env data p s = (Inr (), s, [])"
  by (simp add: record_changes_defs)

lemmas commit_defs =
  commit_def update_or_throw_def and_then_def issue_def loadProfile_def loadProfileChanges_def

lemma commit_calls:
  "\<exists>rest. calls (commit env uid data s) = Update_profile uid (update_payload env data) # rest \<and>
     (\<forall>ev\<in>set rest. \<not> is_change_insert ev \<and> \<not> is_profile_update ev)"
  by (simp add: triple_defs commit_defs
      split: option.splits store_result.splits select_result.splits prod.splits sum.splits)

lemma commit_fails:
  "update_profile env uid (update_payload env data) \<noteq> Ok \<Longrightarrow>
   \<exists>e. commit env uid data s = (Inl e, s, [Update_profile uid (update_payload env data)])"
  by (cases "update_profile env uid (update_payload env data)")
     (simp_all add: commit_defs)

lemma onSubmit_cases:
  assumes "user s = Some uid" and "profile s = Some p"
  shows "(\<exists>e. outcome (record_changes env data p s) = Inl e \<and>
            onSubmit env data s =
              (s, calls (record_changes env data p s) @ [Toast_error ''Failed to update profile''])) \<or>
         (outcome (record_changes env data p s) = Inr () \<and>
            onSubmit env data s =
              (state_after (commit env uid data s),
               calls (record_changes env data p s) @ calls (commit env uid data s) @
               (case outcome (commit env uid data s) of
                  Inl e \<Rightarrow> [Toast_error ''Failed to update profile'']
                | Inr u \<Rightarrow> [])))"
proof -
  obtain r s1 tr1 where rc: "record_changes env data p s = (r, s1, tr1)"
    by (cases "record_changes env data p s") auto
  have s1: "s1 = s"
    using record_changes_state [of env data p s] rc by (simp add: triple_defs)
  obtain r2 s2 tr2 where cm: "commit env uid data s = (r2, s2, tr2)"
    by (cases "commit env uid data s") auto
  show ?thesis
    using assms rc s1 cm
    by (cases r; cases r2)
       (simp_all add: onSubmit_def onSubmit_try_def and_then_def triple_defs)
qed

lemma length_expected_change_rows:
  "length (expected_change_rows uid p data) = changed_fields p data"
  by (simp add: expected_change_rows_def changed_fields_def)

section \<open>The profile-mutation cycle\<close>

text \<open>
  \<^bold>\<open>C1\<close>, amended. Take a submission made with a user and a loaded snapshot, a store
  whose inserts into \<open>profile_changes\<close> do not throw, and phone-number values that are
  not two different empty-or-absent values. If the submission differs from the
  snapshot in K of the three mutable fields, \<open>onSubmit\<close> issues exactly K inserts, in
  the order first name, last name, phone number; the row of a name carries the
  snapshot's value as old value and the submitted value as new value, the row of the
  phone number carries both values with an empty or absent one recorded as \<open>null\<close>;
  exactly one update of the Profile row is issued, and every insert is issued strictly
  before it.
\<close>

theorem onSubmit_one_record_per_changed_field:
  assumes "user s = Some uid" and "profile s = Some p"
    and "\<forall>row e. insert_profile_change env row \<noteq> Thrown e"
    and "\<not> (empty_or_absent (phone_number p) \<and> empty_or_absent (phoneNumber data) \<and>
            phoneNumber data \<noteq> phone_number p)"
  shows "change_inserts (snd (onSubmit env data s)) = expected_change_rows uid p data \<and>
         length (change_inserts (snd (onSubmit env data s))) = changed_fields p data \<and>
         profile_updates (snd (onSubmit env data s)) = [(uid, update_payload env data)] \<and>
         (\<forall>i j. i < length (snd (onSubmit env data s)) \<longrightarrow>
                j < length (snd (onSubmit env data s)) \<longrightarrow>
                is_profile_update (snd (onSubmit env data s) ! i) \<longrightarrow>
                is_change_insert (snd (onSubmit env data s) ! j) \<longrightarrow> j < i)"
proof -
  let ?xs = "calls (record_changes env data p s)"
  let ?ys = "calls (commit env uid data s) @
             (case outcome (commit env uid data s) of
                Inl e \<Rightarrow> [Toast_error ''Failed to update profile'']
              | Inr u \<Rightarrow> [])"
  from record_changes_no_throw [OF assms(1,3)]
  have ret: "outcome (record_changes env data p s) = Inr ()"
    and ins: "change_inserts ?xs = expected_change_rows uid p data"
    by simp_all
  from onSubmit_cases [OF assms(1,2), of env data] ret
  have tr: "snd (onSubmit env data s) = ?xs @ ?ys"
    by auto
  obtain rest where rest: "calls (commit env uid data s) =
      Update_profile uid (update_payload env data) # rest"
    and rest_kind: "\<forall>ev\<in>set rest. \<not> is_change_insert ev \<and> \<not> is_profile_update ev"
    using commit_calls [of env uid data s] by blast
  have xs_kind: "\<forall>ev\<in>set ?xs. \<not> is_profile_update ev"
    using record_changes_calls_kind [of env data p s] by blast
  have ys_kind: "\<forall>ev\<in>set ?ys. \<not> is_change_insert ev"
    using rest rest_kind by (auto split: sum.splits)
  have "change_inserts ?ys = []"
    using ys_kind by (rule change_inserts_none)
  then have c1: "change_inserts (snd (onSubmit env data s)) = expected_change_rows uid p data"
    using tr ins by simp
  have "profile_updates ?xs = []"
    using xs_kind by (rule profile_updates_none)
  moreover have "profile_updates rest = []"
    using rest_kind by (simp add: profile_updates_none)
  ultimately have c3: "profile_updates (snd (onSubmit env data s)) = [(uid, update_payload env data)]"
    using tr rest by (simp split: sum.splits)
  have c4: "j < i"
    if "i < length (snd (onSubmit env data s))" "j < length (snd (onSubmit env data s))"
      "is_profile_update (snd (onSubmit env data s) ! i)"
      "is_change_insert (snd (onSubmit env data s) ! j)" for i j
    using later_in_append [of ?xs is_profile_update ?ys is_change_insert i j] xs_kind ys_kind that
    unfolding tr by blast
  from c1 c3 c4 show ?thesis
    by (simp add: length_expected_change_rows)
qed

text \<open>
  Ada King changes her last name and clears her phone number: K = 2, two inserts
  (the cleared phone number recorded as \<open>null\<close>) and one update.
\<close>

theorem onSubmit_one_record_per_changed_field_witness:
  "user ada_page = Some ''U1'' \<and> profile ada_page = Some ada \<and>
   (\<forall>row e. insert_profile_change accepting_store row \<noteq> Thrown e) \<and>
   changed_fields ada \<lparr>firstName = ''Ada'', lastName = ''Lovelace'', phoneNumber = Str ''''\<rparr> = 2 \<and>
   change_inserts (snd (onSubmit accepting_store
       \<lparr>firstName = ''Ada'', lastName = ''Lovelace'', phoneNumber = Str ''''\<rparr> ada_page)) =
     [\<lparr>user_id = ''U1'', field_changed = ''last_name'', old_value = Str ''King'',
       new_value = Str ''Lovelace'', changed_by = ''U1''\<rparr>,
      \<lparr>user_id = ''U1'', field_changed = ''phone_number'', old_value = Str ''555-0100'',
       new_value = Null, changed_by = ''U1''\<rparr>] \<and>
   profile_updates (snd (onSubmit accepting_store
       \<lparr>firstName = ''Ada'', lastName = ''Lovelace'', phoneNumber = Str ''''\<rparr> ada_page)) =
     [(''U1'', \<lparr>upd_first_name = ''Ada'', upd_last_name = ''Lovelace'',
               upd_phone_number = Str '''', upd_updated_at = ''2025-02-01T09:00:00.000Z''\<rparr>)]"
proof -
  have u: "user ada_page = Some ''U1''" and p: "profile ada_page = Some ada"
    by (simp_all add: ada_page_def)
  have nt: "\<forall>row e. insert_profile_change accepting_store row \<noteq> Thrown e"
    by (simp add: accepting_store_def)
  have ne: "\<not> (empty_or_absent (phone_number ada) \<and>
      empty_or_absent (phoneNumber \<lparr>firstName = ''Ada'', lastName = ''Lovelace'', phoneNumber = Str ''''\<rparr>) \<and>
      phoneNumber \<lparr>firstName = ''Ada'', lastName = ''Lovelace'', phoneNumber = Str ''''\<rparr> \<noteq> phone_number ada)"
    by (simp add: ada_def empty_or_absent_def)
  show ?thesis
    using onSubmit_one_record_per_changed_field [OF u p nt ne] u p nt
    by (simp add: expected_change_rows_def changed_fields_def update_payload_def ada_def
        accepting_store_def)
qed

text \<open>
  \<^bold>\<open>C1\<close> as the specification words it fails where a phone number is cleared: Ada
  submits the empty string, and the inserted row's new value is \<open>null\<close>, not the
  submitted empty string.
\<close>

theorem onSubmit_phone_values_not_verbatim:
  "change_inserts (snd (onSubmit accepting_store
       \<lparr>firstName = ''Ada'', lastName = ''King'', phoneNumber = Str ''''\<rparr> ada_page)) =
     [\<lparr>user_id = ''U1'', field_changed = ''phone_number'', old_value = Str ''555-0100'',
       new_value = Null, changed_by = ''U1''\<rparr>] \<and>
   change_inserts (snd (onSubmit accepting_store
       \<lparr>firstName = ''Ada'', lastName = ''King'', phoneNumber = Str ''''\<rparr> ada_page)) \<noteq>
   verbatim_change_rows ''U1'' ada
       \<lparr>firstName = ''Ada'', lastName = ''King'', phoneNumber = Str ''''\<rparr>"
  by (simp add: onSubmit_def onSubmit_try_def record_changes_defs commit_defs
      verbatim_change_rows_def ada_page_def ada_def accepting_store_def update_payload_def)

lemma or_null_not_empty: "or_null v \<noteq> Str []"
  by (cases v) simp_all

text \<open>Past its guard, \<open>onSubmit\<close> inserts only rows of the diff, whatever the store answers.\<close>

lemma onSubmit_inserts_subset:
  assumes "user s = Some uid" and "profile s = Some p"
  shows "set (change_inserts (snd (onSubmit env data s))) \<subseteq> set (expected_change_rows uid p data)"
proof -
  obtain rest where rest: "calls (commit env uid data s) =
      Update_profile uid (update_payload env data) # rest"
    and rest_kind: "\<forall>ev\<in>set rest. \<not> is_change_insert ev \<and> \<not> is_profile_update ev"
    using commit_calls [of env uid data s] by blast
  have "change_inserts rest = []"
    using rest_kind by (simp add: change_inserts_none)
  then have "change_inserts (snd (onSubmit env data s)) =
      change_inserts (calls (record_changes env data p s))"
    using onSubmit_cases [OF assms, of env data] rest by (auto split: sum.splits)
  then show ?thesis
    using record_changes_inserts_subset [OF assms(1), of env data p] by simp
qed

text \<open>
  \<^bold>\<open>C6\<close>. When the update of the Profile row fails, by a returned error or by an
  exception, the cycle aborts: the component's state, and with it the Profile snapshot,
  is what it was before the submission, no success toast is shown, and neither the
  Profile nor the change history is selected again. This holds however many change
  rows were inserted before.
\<close>

theorem onSubmit_update_failure_aborts:
  assumes "user s = Some uid" and "profile s = Some p"
    and "update_profile env uid (update_payload env data) \<noteq> Ok"
  shows "fst (onSubmit env data s) = s \<and>
         (\<forall>ev\<in>set (snd (onSubmit env data s)). \<not> is_toast_success ev \<and> \<not> is_reload ev)"
proof -
  obtain e where cm: "commit env uid data s =
      (Inl e, s, [Update_profile uid (update_payload env data)])"
    using commit_fails [OF assms(3), of s] by blast
  have kind: "\<forall>ev\<in>set (calls (record_changes env data p s)).
      \<not> is_toast_success ev \<and> \<not> is_reload ev"
    using record_changes_calls_kind [of env data p s] by blast
  from onSubmit_cases [OF assms(1,2), of env data]
  show ?thesis
  proof
    assume "\<exists>e. outcome (record_changes env data p s) = Inl e \<and>
        onSubmit env data s =
          (s, calls (record_changes env data p s) @ [Toast_error ''Failed to update profile''])"
    then show ?thesis using kind by auto
  next
    assume "outcome (record_changes env data p s) = Inr () \<and>
        onSubmit env data s =
          (state_after (commit env uid data s),
           calls (record_changes env data p s) @ calls (commit env uid data s) @
           (case outcome (commit env uid data s) of
              Inl e \<Rightarrow> [Toast_error ''Failed to update profile'']
            | Inr u \<Rightarrow> []))"
    then show ?thesis using kind cm by (auto simp: triple_defs)
  qed
qed

text \<open>
  Ada changes her last name and her phone number; both inserts are accepted, the update
  is refused: the state is unchanged and the error toast is the last call.
\<close>

theorem onSubmit_update_failure_aborts_witness:
  "user ada_page = Some ''U1'' \<and> profile ada_page = Some ada \<and>
   update_profile rejecting_update_store ''U1''
     (update_payload rejecting_update_store
        \<lparr>firstName = ''Ada'', lastName = ''Lovelace'', phoneNumber = Str ''555-0199''\<rparr>) \<noteq> Ok \<and>
   onSubmit rejecting_update_store
     \<lparr>firstName = ''Ada'', lastName = ''Lovelace'', phoneNumber = Str ''555-0199''\<rparr> ada_page =
     (ada_page,
      [Insert_profile_change
         \<lparr>user_id = ''U1'', field_changed = ''last_name'', old_value = Str ''King'',
          new_value = Str ''Lovelace'', changed_by = ''U1''\<rparr>,
       Insert_profile_change
         \<lparr>user_id = ''U1'', field_changed = ''phone_number'', old_value = Str ''555-0100'',
          new_value = Str ''555-0199'', changed_by = ''U1''\<rparr>,
       Update_profile ''U1''
         \<lparr>upd_first_name = ''Ada'', upd_last_name = ''Lovelace'',
          upd_phone_number = Str ''555-0199'', upd_updated_at = ''2025-02-01T09:00:00.000Z''\<rparr>,
       Toast_error ''Failed to update profile''])"
proof -
  have u: "user ada_page = Some ''U1''" and p: "profile ada_page = Some ada"
    by (simp_all add: ada_page_def)
  have f: "update_profile rejecting_update_store ''U1''
     (update_payload rejecting_update_store
        \<lparr>firstName = ''Ada'', lastName = ''Lovelace'', phoneNumber = Str ''555-0199''\<rparr>) \<noteq> Ok"
    by (simp add: rejecting_update_store_def)
  show ?thesis
    using onSubmit_update_failure_aborts [OF u p f] u p f
    by (simp add: onSubmit_def onSubmit_try_def record_changes_defs commit_defs
        update_payload_def rejecting_update_store_def accepting_store_def ada_page_def ada_def)
qed

text \<open>
  When every submitted value is identical (\<open>===\<close>) to the snapshot's, no change row
  is inserted, and exactly one update of the Profile row is still issued; it carries the
  submitted values and the clock's current time as \<open>updated_at\<close>. A form that holds
  the empty string over a snapshot without a phone number is not of this kind.
\<close>

lemma onSubmit_unchanged_form:
  assumes "user s = Some uid" and "profile s = Some p"
    and "firstName data = first_name p" and "lastName data = last_name p"
    and "phoneNumber data = phone_number p"
  shows "change_inserts (snd (onSubmit env data s)) = [] \<and>
         profile_updates (snd (onSubmit env data s)) =
           [(uid, \<lparr>upd_first_name = firstName data, upd_last_name = lastName data,
                   upd_phone_number = phoneNumber data, upd_updated_at = now_iso env\<rparr>)]"
proof -
  have rc: "record_changes env data p s = (Inr (), s, [])"
    using assms(3-5) by (rule record_changes_unchanged)
  obtain rest where rest: "calls (commit env uid data s) =
      Update_profile uid (update_payload env data) # rest"
    and rest_kind: "\<forall>ev\<in>set rest. \<not> is_change_insert ev \<and> \<not> is_profile_update ev"
    using commit_calls [of env uid data s] by blast
  have none: "change_inserts rest = []" "profile_updates rest = []"
    using rest_kind by (simp_all add: change_inserts_none profile_updates_none)
  have "snd (onSubmit env data s) = calls (commit env uid data s) @
      (case outcome (commit env uid data s) of
         Inl e \<Rightarrow> [Toast_error ''Failed to update profile'']
       | Inr u \<Rightarrow> [])"
    using onSubmit_cases [OF assms(1,2), of env data] rc by (simp add: triple_defs)
  then show ?thesis
    using rest none by (simp add: update_payload_def split: sum.splits)
qed

text \<open>
  \<^bold>\<open>C8\<close>. In every change row that \<open>onSubmit\<close> inserts, \<open>changed_by\<close> equals
  \<open>user_id\<close>.
\<close>

theorem change_rows_actor_is_subject:
  "\<forall>r\<in>set (change_inserts (snd (onSubmit env data s))). changed_by r = user_id r"
proof (cases "user s")
  case None
  then show ?thesis by (simp add: onSubmit_def)
next
  case (Some uid)
  show ?thesis
  proof (cases "profile s")
    case None
    then show ?thesis using Some by (simp add: onSubmit_def)
  next
    case (Some p)
    have "\<forall>r\<in>set (expected_change_rows uid p data). changed_by r = user_id r"
      by (auto simp: expected_change_rows_def)
    then show ?thesis
      using onSubmit_inserts_subset [OF \<open>user s = Some uid\<close> Some, of env data] by blast
  qed
qed

text \<open>Ada changes her first name: the row inserted names her as subject and as actor.\<close>

theorem change_rows_actor_is_subject_witness:
  "\<lparr>user_id = ''U1'', field_changed = ''first_name'', old_value = Str ''Ada'',
    new_value = Str ''Augusta'', changed_by = ''U1''\<rparr>
     \<in> set (change_inserts (snd (onSubmit accepting_store
         \<lparr>firstName = ''Augusta'', lastName = ''King'', phoneNumber = Str ''555-0100''\<rparr> ada_page))) \<and>
   map changed_by (change_inserts (snd (onSubmit accepting_store
         \<lparr>firstName = ''Augusta'', lastName = ''King'', phoneNumber = Str ''555-0100''\<rparr> ada_page))) =
   map user_id (change_inserts (snd (onSubmit accepting_store
         \<lparr>firstName = ''Augusta'', lastName = ''King'', phoneNumber = Str ''555-0100''\<rparr> ada_page)))"
  using change_rows_actor_is_subject [of accepting_store
      "\<lparr>firstName = ''Augusta'', lastName = ''King'', phoneNumber = Str ''555-0100''\<rparr>" ada_page]
  by (simp add: onSubmit_def onSubmit_try_def record_changes_defs commit_defs
      update_payload_def accepting_store_def ada_page_def ada_def)

text \<open>
  \<^bold>\<open>C9\<close>. Without a user or without a loaded snapshot, \<open>onSubmit\<close> issues no call at
  all, so neither an insert nor an update, and leaves the state as it is.
\<close>

theorem onSubmit_guard:
  "user s = None \<or> profile s = None \<Longrightarrow> onSubmit env data s = (s, [])"
  by (auto simp: onSubmit_def split: option.splits)

text \<open>A page whose user has gone, and a page that has not loaded its snapshot.\<close>

theorem onSubmit_guard_witness:
  "user (ada_page\<lparr>user := None\<rparr>) = None \<and>
   onSubmit accepting_store
     \<lparr>firstName = ''Augusta'', lastName = ''King'', phoneNumber = Str ''''\<rparr>
     (ada_page\<lparr>user := None\<rparr>) = (ada_page\<lparr>user := None\<rparr>, []) \<and>
   profile blank_page = None \<and>
   onSubmit accepting_store
     \<lparr>firstName = ''Augusta'', lastName = ''King'', phoneNumber = Str ''''\<rparr> blank_page =
     (blank_page, [])"
proof -
  have u: "user (ada_page\<lparr>user := None\<rparr>) = None" by simp
  have p: "profile blank_page = None" by (simp add: blank_page_def)
  show ?thesis
    using onSubmit_guard [of "ada_page\<lparr>user := None\<rparr>" accepting_store
        "\<lparr>firstName = ''Augusta'', lastName = ''King'', phoneNumber = Str ''''\<rparr>"]
      onSubmit_guard [of blank_page accepting_store
        "\<lparr>firstName = ''Augusta'', lastName = ''King'', phoneNumber = Str ''''\<rparr>"]
      u p
    by simp
qed

text \<open>
  \<^bold>\<open>C10\<close>. Every change row inserted is for one of the three fields. A row for the phone
  number carries the snapshot's and the submitted value normalised by \<open>|| null\<close>, so
  neither value is the empty string; a row for the first or the last name carries the
  snapshot's and the submitted value verbatim.
\<close>

theorem change_rows_values:
  assumes "user s = Some uid" and "profile s = Some p"
  shows "\<forall>r\<in>set (change_inserts (snd (onSubmit env data s))).
           field_changed r \<in> {''first_name'', ''last_name'', ''phone_number''} \<and>
           (field_changed r = ''phone_number'' \<longrightarrow>
              old_value r = or_null (phone_number p) \<and>
              new_value r = or_null (phoneNumber data) \<and>
              old_value r \<noteq> Str '''' \<and> new_value r \<noteq> Str '''') \<and>
           (field_changed r = ''first_name'' \<longrightarrow>
              old_value r = Str (first_name p) \<and> new_value r = Str (firstName data)) \<and>
           (field_changed r = ''last_name'' \<longrightarrow>
              old_value r = Str (last_name p) \<and> new_value r = Str (lastName data))"
proof -
  have "\<forall>r\<in>set (expected_change_rows uid p data).
           field_changed r \<in> {''first_name'', ''last_name'', ''phone_number''} \<and>
           (field_changed r = ''phone_number'' \<longrightarrow>
              old_value r = or_null (phone_number p) \<and>
              new_value r = or_null (phoneNumber data) \<and>
              old_value r \<noteq> Str '''' \<and> new_value r \<noteq> Str '''') \<and>
           (field_changed r = ''first_name'' \<longrightarrow>
              old_value r = Str (first_name p) \<and> new_value r = Str (firstName data)) \<and>
           (field_changed r = ''last_name'' \<longrightarrow>
              old_value r = Str (last_name p) \<and> new_value r = Str (lastName data))"
    by (auto simp: expected_change_rows_def or_null_not_empty)
  then show ?thesis
    using onSubmit_inserts_subset [OF assms, of env data] by blast
qed

text \<open>
  The snapshot's phone number is the empty string; a first name and a phone number are
  submitted. The phone row's old value is \<open>null\<close>, the name row's values are verbatim.
\<close>

theorem change_rows_values_witness:
  "user emptied_page = Some ''U2'' \<and>
   profile emptied_page = Some (grace\<lparr>phone_number := Str ''''\<rparr>) \<and>
   change_inserts (snd (onSubmit accepting_store
       \<lparr>firstName = ''Grace B.'', lastName = ''Hopper'', phoneNumber = Str ''555-0142''\<rparr>
       emptied_page)) =
     [\<lparr>user_id = ''U2'', field_changed = ''first_name'', old_value = Str ''Grace'',
       new_value = Str ''Grace B.'', changed_by = ''U2''\<rparr>,
      \<lparr>user_id = ''U2'', field_changed = ''phone_number'', old_value = Null,
       new_value = Str ''555-0142'', changed_by = ''U2''\<rparr>]"
proof -
  have u: "user emptied_page = Some ''U2''"
    and p: "profile emptied_page = Some (grace\<lparr>phone_number := Str ''''\<rparr>)"
    by (simp_all add: emptied_page_def)
  show ?thesis
    using change_rows_values [OF u p, of accepting_store
        "\<lparr>firstName = ''Grace B.'', lastName = ''Hopper'', phoneNumber = Str ''555-0142''\<rparr>"] u p
    by (simp add: onSubmit_def onSubmit_try_def record_changes_defs commit_defs
        update_payload_def accepting_store_def emptied_page_def grace_def)
qed

section \<open>The two recorders under a failing store; empty against absent\<close>

text \<open>\<open>recordLoginAttempt\<close> returns whatever the store does, and issues one insert.\<close>

lemma recordLoginAttempt_returns:
  "\<exists>rest. recordLoginAttempt env uid succ reason s =
      (Inr (), s,
       Insert_login_history
         \<lparr>login_user_id = uid, success = succ,
          device_info = platform env @ '' - '' @ userAgent env, failure_reason = reason\<rparr> # rest) \<and>
     (\<forall>ev\<in>set rest. \<not> is_login_insert ev \<and> \<not> is_navigate ev)"
  by (simp add: recordLoginAttempt_def Let_def split: store_result.splits)





text \<open>
  \<^bold>\<open>C2\<close> asks that a phone number going from absent to the empty string, or from the
  empty string to absent, produces no change row. Line 120 compares the raw values
  with \<open>!==\<close>, and only the arguments of line 121 are normalised. Grace has no phone
  number: \<open>loadProfile\<close> puts the empty string into the form, and submitting the form
  untouched inserts a phone-number row from \<open>null\<close> to \<open>null\<close>. The same row is
  inserted when the snapshot holds the empty string and \<open>undefined\<close> is submitted.
\<close>

theorem onSubmit_records_empty_against_absent_phone:
  "state_after (loadProfile grace_store blank_page) =
     \<lparr>user = Some ''U2'', profile = Some grace, changes = [],
      form = \<lparr>firstName = ''Grace'', lastName = ''Hopper'', phoneNumber = Str ''''\<rparr>\<rparr> \<and>
   change_inserts (snd (onSubmit grace_store
       (form (state_after (loadProfile grace_store blank_page)))
       (state_after (loadProfile grace_store blank_page)))) =
     [\<lparr>user_id = ''U2'', field_changed = ''phone_number'', old_value = Null,
       new_value = Null, changed_by = ''U2''\<rparr>] \<and>
   change_inserts (snd (onSubmit grace_store
       \<lparr>firstName = ''Grace'', lastName = ''Hopper'', phoneNumber = Undefined\<rparr> emptied_page)) =
     [\<lparr>user_id = ''U2'', field_changed = ''phone_number'', old_value = Null,
       new_value = Null, changed_by = ''U2''\<rparr>]"
  by (simp add: triple_defs onSubmit_def onSubmit_try_def record_changes_defs commit_defs
      update_payload_def grace_store_def accepting_store_def blank_page_def emptied_page_def
      grace_def)

text \<open>
  \<^bold>\<open>C7\<close> asks that a submission in which no field differs from the snapshot inserts no
  change row and still issues one update. Grace has no phone number; \<open>loadProfile\<close>
  puts the empty string into the form, and she submits the form untouched. By the diff
  of section 4.2 no field differs, and the one update is issued with the clock's time,
  but line 120 compares \<open>''\<close> with \<open>null\<close> by \<open>!==\<close> and a phone-number row from
  \<open>null\<close> to \<open>null\<close> is inserted.
\<close>

theorem onSubmit_untouched_form_inserts_row:
  "no_field_differs grace (form (state_after (loadProfile grace_store blank_page))) \<and>
   profile (state_after (loadProfile grace_store blank_page)) = Some grace \<and>
   change_inserts (snd (onSubmit grace_store
       (form (state_after (loadProfile grace_store blank_page)))
       (state_after (loadProfile grace_store blank_page)))) =
     [\<lparr>user_id = ''U2'', field_changed = ''phone_number'', old_value = Null,
       new_value = Null, changed_by = ''U2''\<rparr>] \<and>
   profile_updates (snd (onSubmit grace_store
       (form (state_after (loadProfile grace_store blank_page)))
       (state_after (loadProfile grace_store blank_page)))) =
     [(''U2'', \<lparr>upd_first_name = ''Grace'', upd_last_name = ''Hopper'',
               upd_phone_number = Str '''', upd_updated_at = ''2025-02-01T09:00:00.000Z''\<rparr>)]"
  by (simp add: triple_defs no_field_differs_def empty_or_absent_def onSubmit_def
      onSubmit_try_def record_changes_defs commit_defs update_payload_def grace_store_def
      accepting_store_def blank_page_def grace_def)

section \<open>The sign-in cycle\<close>

text \<open>
  \<^bold>\<open>C4\<close>. When the identity provider rejects a sign-in with an error, exactly one
  row is inserted into \<open>login_history\<close>: \<open>success\<close> is false, \<open>user_id\<close> is the
  submitted email and \<open>failure_reason\<close> is the error's message. The \<open>try\<close> block
  then ends by throwing the provider's error, with the insert among the calls already
  issued, whatever the store answered to it; the \<open>catch\<close> of \<open>onSubmit\<close> shows
  the error toast after that.
\<close>

theorem login_rejected_is_recorded_then_raised:
  assumes "signInWithPassword env (email data) (password data) = Auth_failed err"
  shows "login_inserts (login_onSubmit env data) =
           [\<lparr>login_user_id = email data, success = False,
             device_info = platform env @ '' - '' @ userAgent env,
             failure_reason = Str (message err)\<rparr>] \<and>
         outcome (login_try env data ()) = Inl err \<and>
         login_inserts (calls (login_try env data ())) =
           [\<lparr>login_user_id = email data, success = False,
             device_info = platform env @ '' - '' @ userAgent env,
             failure_reason = Str (message err)\<rparr>] \<and>
         login_onSubmit env data =
           calls (login_try env data ()) @
           [Toast_error ''Failed to sign in. Please check your credentials.'']"
proof -
  obtain rest where rec: "recordLoginAttempt env (email data) False (Str (message err)) () =
      (Inr (), (),
       Insert_login_history
         \<lparr>login_user_id = email data, success = False,
          device_info = platform env @ '' - '' @ userAgent env,
          failure_reason = Str (message err)\<rparr> # rest)"
    and rest_kind: "\<forall>ev\<in>set rest. \<not> is_login_insert ev \<and> \<not> is_navigate ev"
    using recordLoginAttempt_returns [of env "email data" False "Str (message err)" "()"] by blast
  have none: "login_inserts rest = []"
    using rest_kind by (induction rest rule: login_inserts.induct) simp_all
  have body: "login_try env data () =
      (Inl err, (),
       Sign_in (email data) (password data) #
       Insert_login_history
         \<lparr>login_user_id = email data, success = False,
          device_info = platform env @ '' - '' @ userAgent env,
          failure_reason = Str (message err)\<rparr> # rest)"
    using assms rec by (simp add: login_try_def and_then_def issue_def raise_def)
  then show ?thesis
    using none by (simp add: login_onSubmit_def triple_defs)
qed

text \<open>
  A rejected sign-in of \<open>a@b.com\<close>, once with a store that accepts the insert and once
  with a store whose insert throws.
\<close>

theorem login_rejected_is_recorded_then_raised_witness:
  "signInWithPassword rejecting_provider ''a@b.com'' ''hunter2hunter2'' =
     Auth_failed (Js_error ''Invalid login credentials'') \<and>
   outcome (login_try rejecting_provider \<lparr>email = ''a@b.com'', password = ''hunter2hunter2''\<rparr> ()) =
     Inl (Js_error ''Invalid login credentials'') \<and>
   login_onSubmit rejecting_provider \<lparr>email = ''a@b.com'', password = ''hunter2hunter2''\<rparr> =
     [Sign_in ''a@b.com'' ''hunter2hunter2'',
      Insert_login_history
        \<lparr>login_user_id = ''a@b.com'', success = False,
         device_info = ''Linux x86_64 - Mozilla/5.0'',
         failure_reason = Str ''Invalid login credentials''\<rparr>,
      Toast_error ''Failed to sign in. Please check your credentials.''] \<and>
   login_inserts (login_onSubmit
       (rejecting_provider\<lparr>insert_login_history := (\<lambda>row. Thrown (Js_error ''Failed to fetch''))\<rparr>)
       \<lparr>email = ''a@b.com'', password = ''hunter2hunter2''\<rparr>) =
     [\<lparr>login_user_id = ''a@b.com'', success = False,
       device_info = ''Linux x86_64 - Mozilla/5.0'',
       failure_reason = Str ''Invalid login credentials''\<rparr>]"
proof -
  have a: "signInWithPassword rejecting_provider
      (email \<lparr>email = ''a@b.com'', password = ''hunter2hunter2''\<rparr>)
      (password \<lparr>email = ''a@b.com'', password = ''hunter2hunter2''\<rparr>) =
      Auth_failed (Js_error ''Invalid login credentials'')"
    by (simp add: rejecting_provider_def)
  have b: "signInWithPassword
      (rejecting_provider\<lparr>insert_login_history := (\<lambda>row. Thrown (Js_error ''Failed to fetch''))\<rparr>)
      (email \<lparr>email = ''a@b.com'', password = ''hunter2hunter2''\<rparr>)
      (password \<lparr>email = ''a@b.com'', password = ''hunter2hunter2''\<rparr>) =
      Auth_failed (Js_error ''Invalid login credentials'')"
    by (simp add: rejecting_provider_def)
  show ?thesis
    using login_rejected_is_recorded_then_raised [OF a]
      login_rejected_is_recorded_then_raised [OF b] a
    by (simp add: rejecting_provider_def login_onSubmit_def login_try_def and_then_def issue_def
        raise_def recordLoginAttempt_def triple_defs)
qed

text \<open>
  \<^bold>\<open>C5\<close>. When the identity provider accepts a sign-in and resolves it to a user,
  exactly one row is inserted into \<open>login_history\<close>, with \<open>success\<close> true and
  \<open>user_id\<close> the resolved user's id; the navigation is the last call, it happens once,
  and the insert is among the calls before it.
\<close>

theorem login_accepted_is_recorded_then_navigates:
  assumes "signInWithPassword env (email data) (password data) = Auth_ok (Some uid)"
  shows "login_inserts (login_onSubmit env data) =
           [\<lparr>login_user_id = uid, success = True,
             device_info = platform env @ '' - '' @ userAgent env,
             failure_reason = Undefined\<rparr>] \<and>
         (\<exists>before. login_onSubmit env data = before @ [Navigate ''/''] \<and>
            login_inserts before =
              [\<lparr>login_user_id = uid, success = True,
                device_info = platform env @ '' - '' @ userAgent env,
                failure_reason = Undefined\<rparr>] \<and>
            (\<forall>ev\<in>set before. \<not> is_navigate ev))"
proof -
  obtain rest where rec: "recordLoginAttempt env uid True Undefined () =
      (Inr (), (),
       Insert_login_history
         \<lparr>login_user_id = uid, success = True,
          device_info = platform env @ '' - '' @ userAgent env,
          failure_reason = Undefined\<rparr> # rest)"
    and rest_kind: "\<forall>ev\<in>set rest. \<not> is_login_insert ev \<and> \<not> is_navigate ev"
    using recordLoginAttempt_returns [of env uid True Undefined "()"] by blast
  have none: "login_inserts rest = []"
    using rest_kind by (induction rest rule: login_inserts.induct) simp_all
  let ?before = "Sign_in (email data) (password data) #
       Insert_login_history
         \<lparr>login_user_id = uid, success = True,
          device_info = platform env @ '' - '' @ userAgent env,
          failure_reason = Undefined\<rparr> # rest"
  have tr: "login_onSubmit env data = ?before @ [Navigate ''/'']"
    using assms rec by (simp add: login_onSubmit_def login_try_def and_then_def issue_def)
  have "login_inserts ?before =
      [\<lparr>login_user_id = uid, success = True,
        device_info = platform env @ '' - '' @ userAgent env, failure_reason = Undefined\<rparr>]"
    using none by simp
  moreover have "\<forall>ev\<in>set ?before. \<not> is_navigate ev"
    using rest_kind by simp
  ultimately show ?thesis
    using tr by (simp del: append_Cons)
qed

text \<open>A sign-in that resolves to the user \<open>U1\<close>.\<close>

theorem login_accepted_is_recorded_then_navigates_witness:
  "signInWithPassword accepting_provider ''ada@example.org'' ''correct horse'' =
     Auth_ok (Some ''U1'') \<and>
   login_onSubmit accepting_provider \<lparr>email = ''ada@example.org'', password = ''correct horse''\<rparr> =
     [Sign_in ''ada@example.org'' ''correct horse'',
      Insert_login_history
        \<lparr>login_user_id = ''U1'', success = True,
         device_info = ''Linux x86_64 - Mozilla/5.0'', failure_reason = Undefined\<rparr>,
      Navigate ''/'']"
proof -
  have a: "signInWithPassword accepting_provider
      (email \<lparr>email = ''ada@example.org'', password = ''correct horse''\<rparr>)
      (password \<lparr>email = ''ada@example.org'', password = ''correct horse''\<rparr>) =
      Auth_ok (Some ''U1'')"
    by (simp add: accepting_provider_def)
  show ?thesis
    using login_accepted_is_recorded_then_navigates [OF a] a
    by (simp add: accepting_provider_def login_onSubmit_def login_try_def and_then_def issue_def
        recordLoginAttempt_def)
qed

text \<open>
  Line 56 guards on \<open>authData.user\<close>: a sign-in without an error and without a user
  navigates without an insert.
\<close>

lemma login_accepted_without_user:
  "signInWithPassword env (email data) (password data) = Auth_ok None \<Longrightarrow>
   login_onSubmit env data = [Sign_in (email data) (password data), Navigate ''/'']"
  by (simp add: login_onSubmit_def login_try_def and_then_def issue_def finish_def)

end
